theory Spec2Isabelle
  imports Main "HOL-Library.Sublist"
begin

section \<open>The document tree handed to the scripts\<close>

text \<open>
  Both scripts call \<^verbatim>\<open>BeautifulSoup(html, 'html.parser')\<close> and then only walk the tree it
  returns. The parser is a library, so it is a parameter of the model (\<open>BeautifulSoup\<close> in the
  environment below); the tree and the accessors the scripts use
  (\<^verbatim>\<open>find_all\<close>, \<^verbatim>\<open>find\<close>/\<^verbatim>\<open>.title\<close>, \<^verbatim>\<open>.get\<close>/\<^verbatim>\<open>.attrs\<close>,
  \<^verbatim>\<open>.string\<close>, \<^verbatim>\<open>.text\<close>) are modelled here.

  A tag carries its name, its attribute dictionary (insertion ordered, hence an association
  list) and its children. \<open>NavigableString\<close> is a text node; \<open>Comment\<close> stands for the string
  nodes that \<^verbatim>\<open>.text\<close> leaves out (comments, doctypes, processing instructions).
  Python's \<^verbatim>\<open>str\<close> is modelled by \<open>string\<close>.
\<close>

type_synonym attrs = "(string \<times> string) list"

datatype node =
    Tag (name: string) (attrs: attrs) (contents: "node list")
  | NavigableString string
  | Comment string

text \<open>A soup object is the list of the top-level nodes of the document.\<close>

type_synonym soup = "node list"

text \<open>\<^verbatim>\<open>.descendants\<close>: every node below, in document order (a node before its children).\<close>

fun subtree :: "node \<Rightarrow> node list" where
  "subtree (Tag n a cs) = Tag n a cs # concat (map subtree cs)"
| "subtree (NavigableString s) = [NavigableString s]"
| "subtree (Comment s) = [Comment s]"

definition descendants :: "soup \<Rightarrow> node list" where
  "descendants s = concat (map subtree s)"

fun is_tag :: "string \<Rightarrow> node \<Rightarrow> bool" where
  "is_tag n (Tag m a cs) = (m = n)"
| "is_tag n (NavigableString s) = False"
| "is_tag n (Comment s) = False"

text \<open>\<^verbatim>\<open>soup.find_all(n)\<close>: the tags named \<open>n\<close>, in document order.\<close>

definition find_all :: "soup \<Rightarrow> string \<Rightarrow> node list" where
  "find_all s n = filter (is_tag n) (descendants s)"

text \<open>\<^verbatim>\<open>soup.find(n)\<close>, also \<^verbatim>\<open>soup.title\<close> for \<open>n = title\<close>: the first result of
  \<^verbatim>\<open>find_all\<close>, or \<^verbatim>\<open>None\<close>.\<close>

definition find_tag :: "soup \<Rightarrow> string \<Rightarrow> node option" where
  "find_tag s n = (case find_all s n of [] \<Rightarrow> None | t # ts \<Rightarrow> Some t)"

text \<open>\<^verbatim>\<open>tag.attrs\<close> and \<^verbatim>\<open>tag.get(k)\<close> (a dictionary lookup that yields \<^verbatim>\<open>None\<close> for a
  missing key); \<^verbatim>\<open>k in props\<close>.\<close>

fun attrs_of :: "node \<Rightarrow> attrs" where
  "attrs_of (Tag n a cs) = a"
| "attrs_of (NavigableString s) = []"
| "attrs_of (Comment s) = []"

definition get :: "node \<Rightarrow> string \<Rightarrow> string option" where
  "get tag k = map_of (attrs_of tag) k"

definition has_key :: "attrs \<Rightarrow> string \<Rightarrow> bool" where
  "has_key props k = (k \<in> set (map fst props))"

text \<open>\<^verbatim>\<open>tag.text\<close>: the text nodes below the tag, concatenated; comments are left out.\<close>

fun get_text :: "node \<Rightarrow> string" where
  "get_text (Tag n a cs) = concat (map get_text cs)"
| "get_text (NavigableString s) = s"
| "get_text (Comment s) = []"

text \<open>\<^verbatim>\<open>tag.string\<close>: \<^verbatim>\<open>None\<close> unless the tag has exactly one child; that child when it is a
  string node of any kind; otherwise the child's own \<^verbatim>\<open>.string\<close>.\<close>

fun string_of :: "node \<Rightarrow> string option" where
  "string_of (NavigableString s) = Some s"
| "string_of (Comment s) = Some s"
| "string_of (Tag n a cs) = (case cs of [c] \<Rightarrow> string_of c | _ \<Rightarrow> None)"

section \<open>Python values\<close>

text \<open>Truthiness of an optional string, \<^verbatim>\<open>a or b\<close>, and \<^verbatim>\<open>str\<close> as an f-string applies it
  (\<^verbatim>\<open>None\<close> is printed as the four letters \<^verbatim>\<open>None\<close>).\<close>

fun truthy :: "string option \<Rightarrow> bool" where
  "truthy None = False"
| "truthy (Some s) = (s \<noteq> [])"

definition py_or :: "string option \<Rightarrow> string option \<Rightarrow> string option" where
  "py_or a b = (if truthy a then a else b)"

fun py_str :: "string option \<Rightarrow> string" where
  "py_str None = ''None''"
| "py_str (Some s) = s"

text \<open>\<^verbatim>\<open>str\<close> of an integer, in decimal.\<close>

definition digit :: "nat \<Rightarrow> char" where
  "digit d = ''0123456789'' ! d"

function str_nat :: "nat \<Rightarrow> string" where
  "str_nat n = (if n < 10 then [digit n] else str_nat (n div 10) @ [digit (n mod 10)])"
  by pat_completeness auto
termination
  by (relation "measure id") auto

definition str_int :: "int \<Rightarrow> string" where
  "str_int i = (if i < 0 then CHR ''-'' # str_nat (nat (- i)) else str_nat (nat i))"

section \<open>Faults, standard output and the outside world\<close>

text \<open>
  A raised exception object: whether it is an instance of \<^verbatim>\<open>Exception\<close> (what the handler
  of \<^verbatim>\<open>inspect_meta\<close> tests; \<^verbatim>\<open>KeyboardInterrupt\<close> and \<^verbatim>\<open>SystemExit\<close> are not), and its
  \<^verbatim>\<open>str\<close>.
\<close>

datatype fault = Fault (is_Exception: bool) (str_of: string)

text \<open>What one call of \<^verbatim>\<open>print\<close> writes: a string, or the \<^verbatim>\<open>repr\<close> of an attribute
  dictionary (kept as the dictionary itself).\<close>

datatype line = Line string | Repr attrs

text \<open>A response object: \<^verbatim>\<open>status_code\<close> and the \<^verbatim>\<open>text\<close> property (\<open>text_of\<close>),
  which decodes the body when read. An open file is what its \<^verbatim>\<open>read()\<close> gives.\<close>

record response =
  status_code :: int
  text_of :: "fault + string"

type_synonym text_file = "fault + string"

text \<open>
  The library calls of the two scripts, as functions of their arguments:
  \<^verbatim>\<open>requests.get(url, headers=headers)\<close>, \<^verbatim>\<open>open(file_path, 'r', encoding='utf-8')\<close>,
  \<^verbatim>\<open>BeautifulSoup(html, 'html.parser')\<close>, and the write to standard output that
  \<^verbatim>\<open>print\<close> performs (\<open>None\<close>: written; \<open>Some f\<close>: the write raises \<open>f\<close>, as an encoding
  error or a closed pipe does).
\<close>

record env =
  requests_get :: "string \<Rightarrow> attrs \<Rightarrow> fault + response"
  py_open :: "string \<Rightarrow> fault + text_file"
  BeautifulSoup :: "string \<Rightarrow> fault + soup"
  stdout_write :: "line \<Rightarrow> fault option"

text \<open>A statement runs on the lines printed so far and either returns a value or raises;
  either way it leaves the lines printed.\<close>

datatype 'a outcome = Returned 'a | Raised fault

type_synonym 'a io = "line list \<Rightarrow> 'a outcome \<times> line list"

definition return :: "'a \<Rightarrow> 'a io" where
  "return x out = (Returned x, out)"

definition call :: "fault + 'a \<Rightarrow> 'a io" where
  "call r out = (case r of Inl f \<Rightarrow> (Raised f, out) | Inr x \<Rightarrow> (Returned x, out))"

definition seq :: "'a io \<Rightarrow> ('a \<Rightarrow> 'b io) \<Rightarrow> 'b io" where
  "seq m k out = (case m out of
       (Raised f, out') \<Rightarrow> (Raised f, out')
     | (Returned x, out') \<Rightarrow> k x out')"

definition print :: "env \<Rightarrow> line \<Rightarrow> unit io" where
  "print e l out = (case stdout_write e l of
       None \<Rightarrow> (Returned (), out @ [l])
     | Some f \<Rightarrow> (Raised f, out))"

text \<open>\<^verbatim>\<open>try: body except Exception as e: handler(e)\<close>.\<close>

definition try_except_Exception :: "'a io \<Rightarrow> (fault \<Rightarrow> 'a io) \<Rightarrow> 'a io" where
  "try_except_Exception body handler out = (case body out of
       (Returned x, out') \<Rightarrow> (Returned x, out')
     | (Raised f, out') \<Rightarrow> (if is_Exception f then handler f out' else (Raised f, out')))"

text \<open>How the interpreter ends: status 0 after a normal return, a traceback and status 1
  after an exception that nothing caught.\<close>

fun exit_status :: "unit outcome \<Rightarrow> int" where
  "exit_status (Returned u) = 0"
| "exit_status (Raised f) = 1"

section \<open>scripts/inspect\_meta.py\<close>

definition headers :: attrs where
  "headers = [(''User-Agent'', ''WhatsApp/2.21.12.21 A'')]"

text \<open>Lines 16 to 19: the loop over the \<^verbatim>\<open>meta\<close> tags.\<close>

fun for_meta :: "env \<Rightarrow> node list \<Rightarrow> unit io" where
  "for_meta e [] = return ()"
| "for_meta e (meta # metas) =
     (let props = attrs_of meta in
      if has_key props ''property'' \<or> has_key props ''name''
      then seq (print e (Repr props)) (\<lambda>_. for_meta e metas)
      else for_meta e metas)"

text \<open>Lines 13 to 19: parse, print the header, run the loop.\<close>

definition extract_meta :: "env \<Rightarrow> string \<Rightarrow> soup io" where
  "extract_meta e html =
     seq (call (BeautifulSoup e html)) (\<lambda>soup.
     seq (print e (Line (CHR 0x0A # ''--- Meta Tags in Head ---''))) (\<lambda>_.
     seq (for_meta e (find_all soup ''meta'')) (\<lambda>_.
     return soup)))"

text \<open>Line 22: \<^verbatim>\<open>soup.title.string if soup.title else "No title tag"\<close>, as \<^verbatim>\<open>print\<close>
  shows it. A tag is always truthy.\<close>

definition title_string :: "soup \<Rightarrow> string" where
  "title_string soup = (case find_tag soup ''title'' of
       Some title \<Rightarrow> py_str (string_of title)
     | None \<Rightarrow> ''No title tag'')"

text \<open>Lines 11 to 22: the body of the \<^verbatim>\<open>try\<close>.\<close>

definition inspect_meta_body :: "env \<Rightarrow> string \<Rightarrow> unit io" where
  "inspect_meta_body e url =
     seq (call (requests_get e url headers)) (\<lambda>response.
     seq (print e (Line (''Status Code: '' @ str_int (status_code response)))) (\<lambda>_.
     seq (call (text_of response)) (\<lambda>html.
     seq (extract_meta e html) (\<lambda>soup.
     seq (print e (Line (CHR 0x0A # ''--- Title ---''))) (\<lambda>_.
     print e (Line (title_string soup)))))))"

definition inspect_meta :: "env \<Rightarrow> string \<Rightarrow> unit io" where
  "inspect_meta e url =
     try_except_Exception (inspect_meta_body e url)
       (\<lambda>ex. print e (Line (''Error: '' @ str_of ex)))"

text \<open>Lines 27 to 31: the entry point, on \<^verbatim>\<open>sys.argv\<close>.\<close>

definition default_url :: string where
  "default_url = ''https://voiceofupsa.com/articles/beyond-the-lecture-hall-how-upsa-students-are-redefining-success''"

definition main_inspect_meta :: "env \<Rightarrow> string list \<Rightarrow> unit io" where
  "main_inspect_meta e argv =
     (if length argv > 1 then inspect_meta e (argv ! 1) else inspect_meta e default_url)"

section \<open>scripts/inspect\_meta\_bs4.py\<close>

text \<open>Lines 12 to 16: the loop over the \<^verbatim>\<open>meta\<close> tags.\<close>

fun for_tag :: "env \<Rightarrow> node list \<Rightarrow> unit io" where
  "for_tag e [] = return ()"
| "for_tag e (tag # meta_tags) =
     (let name = py_or (get tag ''name'') (get tag ''property'');
          content = get tag ''content''
      in if truthy name
         then seq (print e (Line (py_str name @ '': '' @ py_str content)))
                (\<lambda>_. for_tag e meta_tags)
         else for_tag e meta_tags)"

text \<open>Lines 8 to 16: parse, print the header, run the loop.\<close>

definition extract_meta_bs4 :: "env \<Rightarrow> string \<Rightarrow> soup io" where
  "extract_meta_bs4 e html =
     seq (call (BeautifulSoup e html)) (\<lambda>soup.
     seq (print e (Line ''--- Meta Tags ---'')) (\<lambda>_.
     seq (for_tag e (find_all soup ''meta'')) (\<lambda>_.
     return soup)))"

text \<open>Lines 19 and 20: \<^verbatim>\<open>title.text if title else "No title found"\<close>.\<close>

definition title_text :: "soup \<Rightarrow> string" where
  "title_text soup = (case find_tag soup ''title'' of
       Some title \<Rightarrow> get_text title
     | None \<Rightarrow> ''No title found'')"

text \<open>Lines 4 to 20. Nothing here catches a fault.\<close>

definition inspect_html :: "env \<Rightarrow> string \<Rightarrow> unit io" where
  "inspect_html e file_path =
     seq (call (py_open e file_path)) (\<lambda>f.
     seq (call f) (\<lambda>html.
     seq (extract_meta_bs4 e html) (\<lambda>soup.
     seq (print e (Line (CHR 0x0A # ''--- Title ---''))) (\<lambda>_.
     print e (Line (title_text soup))))))"

definition main_inspect_html :: "env \<Rightarrow> unit io" where
  "main_inspect_html e = inspect_html e ''article_debug_3.html''"

section \<open>What the loops emit\<close>

text \<open>
  The test of line 18 of inspect\_meta.py, and the tags of a document that pass it: the
  elements whose attribute dictionary the network script prints.
\<close>

definition named :: "node \<Rightarrow> bool" where
  "named m = (has_key (attrs_of m) ''property'' \<or> has_key (attrs_of m) ''name'')"

definition emitted_raw :: "soup \<Rightarrow> node list" where
  "emitted_raw soup = filter named (find_all soup ''meta'')"

text \<open>
  Lines 13 to 15 of inspect\_meta\_bs4.py for one tag: the pair of \<^verbatim>\<open>name\<close> and
  \<^verbatim>\<open>content\<close> that line 16 prints, \<open>None\<close> when \<^verbatim>\<open>if name\<close> fails; the printed line of
  such a pair; and the tags of a document for which a pair is printed.
\<close>

definition meta_record :: "node \<Rightarrow> (string \<times> string option) option" where
  "meta_record tag =
     (let name = py_or (get tag ''name'') (get tag ''property'');
          content = get tag ''content''
      in if truthy name then Some (py_str name, content) else None)"

definition record_line :: "string \<times> string option \<Rightarrow> line" where
  "record_line r = Line (fst r @ '': '' @ py_str (snd r))"

definition emitted_normalized :: "soup \<Rightarrow> node list" where
  "emitted_normalized soup = filter (\<lambda>t. meta_record t \<noteq> None) (find_all soup ''meta'')"

section \<open>The specification's notions\<close>

text \<open>The number of \<^verbatim>\<open>meta\<close> elements of a document that have a \<^verbatim>\<open>property\<close> or a
  \<^verbatim>\<open>name\<close> attribute.\<close>

definition count_named_metas :: "soup \<Rightarrow> nat" where
  "count_named_metas soup =
     length (filter (\<lambda>n. is_tag ''meta'' n \<and> (get n ''property'' \<noteq> None \<or> get n ''name'' \<noteq> None))
       (descendants soup))"

text \<open>The first \<^verbatim>\<open>title\<close> element in document order.\<close>

definition first_title :: "soup \<Rightarrow> node option" where
  "first_title soup = List.find (is_tag ''title'') (descendants soup)"

text \<open>The key as the specification words it: the \<^verbatim>\<open>property\<close> attribute if present,
  otherwise the \<^verbatim>\<open>name\<close> attribute if present.\<close>

definition spec_key :: "node \<Rightarrow> string option" where
  "spec_key tag = (case get tag ''property'' of Some p \<Rightarrow> Some p | None \<Rightarrow> get tag ''name'')"

text \<open>The key in the order the file script takes it: the \<^verbatim>\<open>name\<close> attribute if present
  and not empty, otherwise the \<^verbatim>\<open>property\<close> attribute if present and not empty.\<close>

definition nonempty :: "string option \<Rightarrow> string option" where
  "nonempty v = (case v of Some s \<Rightarrow> (if s = [] then None else Some s) | None \<Rightarrow> None)"

definition name_first_key :: "node \<Rightarrow> string option" where
  "name_first_key tag = (case nonempty (get tag ''name'') of
       Some n \<Rightarrow> Some n
     | None \<Rightarrow> nonempty (get tag ''property''))"

text \<open>Statements that only append to the lines printed and do not look at them; a standard
  output that takes every line.\<close>

definition appends :: "'a io \<Rightarrow> bool" where
  "appends m = (\<forall>out. m out = (fst (m []), out @ snd (m [])))"

definition accepting :: "env \<Rightarrow> bool" where
  "accepting e = (\<forall>l. stdout_write e l = None)"

section \<open>Sample documents and worlds\<close>

text \<open>
  \<open>world html soup\<close>: every URL answers 200 with the text \<open>html\<close>, every file holds
  \<open>html\<close>, the parser builds \<open>soup\<close> from it, and standard output takes every line.
  The sample trees are the ones \<^verbatim>\<open>html.parser\<close> builds for the texts named with them.
\<close>

definition world :: "string \<Rightarrow> soup \<Rightarrow> env" where
  "world html soup =
     \<lparr> requests_get = (\<lambda>url hs. Inr \<lparr> status_code = 200, text_of = Inr html \<rparr>),
       py_open = (\<lambda>path. Inr (Inr html)),
       BeautifulSoup = (\<lambda>t. if t = html then Inr soup else Inr []),
       stdout_write = (\<lambda>l. None) \<rparr>"

definition hello_html :: string where
  "hello_html = ''<html><head><title>Hello</title></head></html>''"

definition hello_soup :: soup where
  "hello_soup = [Tag ''html'' [] [Tag ''head'' [] [Tag ''title'' [] [NavigableString ''Hello'']]]]"

definition no_title_html :: string where
  "no_title_html = ''<html><body>no title here</body></html>''"

definition no_title_soup :: soup where
  "no_title_soup = [Tag ''html'' [] [Tag ''body'' [] [NavigableString ''no title here'']]]"

definition empty_title_soup :: soup where
  "empty_title_soup = [Tag ''html'' [] [Tag ''head'' [] [Tag ''title'' [] []]]]"

definition both_keys_tag :: node where
  "both_keys_tag = Tag ''meta''
     [(''name'', ''description''), (''property'', ''og:description''), (''content'', ''x'')] []"

definition empty_keys_tag :: node where
  "empty_keys_tag = Tag ''meta'' [(''name'', []), (''property'', []), (''content'', ''x'')] []"

definition empty_name_tag :: node where
  "empty_name_tag = Tag ''meta'' [(''name'', []), (''property'', ''og:title''), (''content'', ''T'')] []"

definition no_content_tag :: node where
  "no_content_tag = Tag ''meta'' [(''property'', ''og:image'')] []"

definition empty_content_tag :: node where
  "empty_content_tag = Tag ''meta'' [(''property'', ''og:image''), (''content'', [])] []"

definition charset_tag :: node where
  "charset_tag = Tag ''meta'' [(''charset'', ''utf-8'')] []"

definition sample_soup :: soup where
  "sample_soup = [Tag ''html'' [] [Tag ''head'' []
       [charset_tag, both_keys_tag, empty_keys_tag, no_content_tag,
        Tag ''title'' [] [NavigableString ''Example Page'']],
     Tag ''body'' [] [empty_name_tag]]]"

definition empty_keys_soup :: soup where
  "empty_keys_soup = [Tag ''html'' [] [Tag ''head'' [] [empty_keys_tag]]]"

text \<open>Worlds in which one library call fails: the file is missing; the file is not UTF-8;
  the host cannot be reached; the body cannot be decoded; the parser is interrupted from the
  keyboard (not an \<^verbatim>\<open>Exception\<close>); the parser rejects the markup; standard output cannot
  encode one of the lines.\<close>

definition no_file_env :: env where
  "no_file_env = (world [] [])
     \<lparr> py_open := (\<lambda>path. Inl (Fault True (''[Errno 2] No such file or directory: '' @ path))) \<rparr>"

definition undecodable_env :: env where
  "undecodable_env = (world [] [])
     \<lparr> py_open := (\<lambda>path. Inr (Inl (Fault True ''codec cannot decode byte 0xff''))) \<rparr>"

definition unreachable_env :: env where
  "unreachable_env = (world [] [])
     \<lparr> requests_get := (\<lambda>url hs. Inl (Fault True (''Max retries exceeded with url: '' @ url))) \<rparr>"

definition undecoded_env :: env where
  "undecoded_env = (world [] [])
     \<lparr> requests_get := (\<lambda>url hs.
          Inr \<lparr> status_code = 200, text_of = Inl (Fault True ''unknown encoding'') \<rparr>) \<rparr>"

definition interrupted_env :: env where
  "interrupted_env = (world hello_html hello_soup)
     \<lparr> BeautifulSoup := (\<lambda>t. Inl (Fault False [])) \<rparr>"

definition unparsed_env :: env where
  "unparsed_env = (world hello_html hello_soup)
     \<lparr> BeautifulSoup := (\<lambda>t. Inl (Fault True ''markup rejected'')) \<rparr>"

definition narrow_stdout_env :: env where
  "narrow_stdout_env = (world [] sample_soup)
     \<lparr> stdout_write := (\<lambda>l. if l = Repr (attrs_of no_content_tag)
          then Some (Fault True ''codec cannot encode character'') else None) \<rparr>"

section \<open>Sequencing, printing and the loops\<close>

lemma appends_return: "appends (return x)"
  by (simp add: appends_def return_def)

lemma appends_call: "appends (call r)"
  by (cases r) (simp_all add: appends_def call_def)

lemma appends_print: "appends (print e l)"
  by (cases "stdout_write e l") (simp_all add: appends_def print_def)

lemma appendsD: "appends m \<Longrightarrow> m out = (fst (m []), out @ snd (m []))"
  unfolding appends_def by (rule spec)

lemma appends_seq:
  assumes m: "appends m" and k: "\<And>x. appends (k x)"
  shows "appends (seq m k)"
proof (unfold appends_def, intro allI)
  fix out
  obtain r s where ms: "m [] = (r, s)" by (cases "m []")
  have mo: "m out = (r, out @ s)" using appendsD [OF m, of out] ms by simp
  show "seq m k out = (fst (seq m k []), out @ snd (seq m k []))"
  proof (cases r)
    case (Raised f)
    then show ?thesis using ms mo by (simp add: seq_def)
  next
    case (Returned x)
    have a: "k x (out @ s) = (fst (k x []), (out @ s) @ snd (k x []))"
      by (rule appendsD [OF k])
    have b: "k x s = (fst (k x []), s @ snd (k x []))"
      by (rule appendsD [OF k])
    show ?thesis using Returned ms mo a b by (simp add: seq_def)
  qed
qed

lemma appends_for_meta: "appends (for_meta e ms)"
  by (induction ms) (simp_all add: appends_return appends_seq appends_print Let_def)

lemma appends_extract_meta: "appends (extract_meta e html)"
  unfolding extract_meta_def
  by (intro appends_seq appends_call appends_print appends_for_meta appends_return)

lemma appends_inspect_meta_body: "appends (inspect_meta_body e url)"
  unfolding inspect_meta_body_def
  by (intro appends_seq appends_call appends_print appends_extract_meta)

lemma has_key_get: "has_key (attrs_of m) k = (get m k \<noteq> None)"
  by (simp add: has_key_def get_def map_of_eq_None_iff)

lemma named_get: "named m = (get m ''property'' \<noteq> None \<or> get m ''name'' \<noteq> None)"
  by (simp add: named_def has_key_get)

lemma for_meta_Cons:
  "for_meta e (m # ms) =
     (if named m then seq (print e (Repr (attrs_of m))) (\<lambda>_. for_meta e ms) else for_meta e ms)"
  by (simp add: named_def Let_def)

lemma for_tag_Cons:
  "for_tag e (t # ts) =
     (case meta_record t of
        Some r \<Rightarrow> seq (print e (record_line r)) (\<lambda>_. for_tag e ts)
      | None \<Rightarrow> for_tag e ts)"
  by (simp add: meta_record_def record_line_def Let_def)

lemma seq_print_written:
  "stdout_write e l = None \<Longrightarrow> seq (print e l) k out = k () (out @ [l])"
  by (simp add: seq_def print_def)

lemma for_meta_accepting:
  "accepting e \<Longrightarrow>
   for_meta e ms out = (Returned (), out @ map (\<lambda>m. Repr (attrs_of m)) (filter named ms))"
proof (induction ms arbitrary: out)
  case Nil
  then show ?case by (simp add: return_def)
next
  case (Cons m ms)
  have p: "stdout_write e (Repr (attrs_of m)) = None"
    using Cons.prems by (simp add: accepting_def)
  show ?case
    using Cons.IH [OF Cons.prems]
    by (simp add: for_meta_Cons seq_print_written [OF p] del: for_meta.simps)
qed

lemma for_tag_accepting:
  "accepting e \<Longrightarrow>
   for_tag e ts out = (Returned (), out @ map record_line (List.map_filter meta_record ts))"
proof (induction ts arbitrary: out)
  case Nil
  then show ?case by (simp add: return_def List.map_filter_simps)
next
  case (Cons t ts)
  show ?case
  proof (cases "meta_record t")
    case None
    then show ?thesis
      using Cons.IH [OF Cons.prems]
      by (simp add: for_tag_Cons List.map_filter_simps del: for_tag.simps)
  next
    case (Some r)
    have p: "stdout_write e (record_line r) = None"
      using Cons.prems by (simp add: accepting_def)
    show ?thesis
      using Some Cons.IH [OF Cons.prems]
      by (simp add: for_tag_Cons List.map_filter_simps seq_print_written [OF p]
          del: for_tag.simps)
  qed
qed

lemma map_filter_as_filter:
  "List.map_filter f xs = map (\<lambda>x. the (f x)) (filter (\<lambda>x. f x \<noteq> None) xs)"
  by (induction xs) (auto simp: List.map_filter_simps)

lemma meta_record_named: "meta_record t \<noteq> None \<Longrightarrow> named t"
  by (auto simp: meta_record_def named_get py_or_def Let_def split: if_splits)

lemma count_named_metas_raw: "length (emitted_raw soup) = count_named_metas soup"
  by (simp add: emitted_raw_def count_named_metas_def find_all_def named_get conj_commute)

lemma first_of_filter:
  "(case filter P xs of [] \<Rightarrow> None | t # ts \<Rightarrow> Some t) = List.find P xs"
  by (induction xs) simp_all

lemma find_tag_first: "find_tag s n = List.find (is_tag n) (descendants s)"
  by (simp add: find_tag_def find_all_def first_of_filter)

lemma is_tag_Tag: "is_tag n t \<Longrightarrow> \<exists>a cs. t = Tag n a cs"
  by (cases t) simp_all

lemma string_of_not_single: "length cs \<noteq> 1 \<Longrightarrow> string_of (Tag n a cs) = None"
  by (cases cs rule: list.exhaust [case_names Nil Cons]) (simp_all split: list.splits)

lemma extract_meta_output:
  assumes b: "BeautifulSoup e html = Inr soup" and acc: "accepting e"
  shows "extract_meta e html out =
    (Returned soup, out @ [Line (CHR 0x0A # ''--- Meta Tags in Head ---'')]
       @ map (\<lambda>m. Repr (attrs_of m)) (emitted_raw soup))"
proof -
  have w: "\<And>l. stdout_write e l = None" using acc by (simp add: accepting_def)
  show ?thesis
    by (simp add: extract_meta_def b seq_def call_def print_def w return_def
        for_meta_accepting [OF acc] emitted_raw_def)
qed

lemma extract_meta_bs4_output:
  assumes b: "BeautifulSoup e html = Inr soup" and acc: "accepting e"
  shows "extract_meta_bs4 e html out =
    (Returned soup, out @ [Line ''--- Meta Tags ---'']
       @ map record_line (List.map_filter meta_record (find_all soup ''meta'')))"
proof -
  have w: "\<And>l. stdout_write e l = None" using acc by (simp add: accepting_def)
  show ?thesis
    by (simp add: extract_meta_bs4_def b seq_def call_def print_def w return_def
        for_tag_accepting [OF acc])
qed

lemma inspect_meta_body_output:
  assumes g: "requests_get e url headers = Inr r"
    and t: "text_of r = Inr html"
    and b: "BeautifulSoup e html = Inr soup"
    and acc: "accepting e"
  shows "inspect_meta_body e url out =
    (Returned (), out @ [Line (''Status Code: '' @ str_int (status_code r)),
                  Line (CHR 0x0A # ''--- Meta Tags in Head ---'')]
       @ map (\<lambda>m. Repr (attrs_of m)) (emitted_raw soup)
       @ [Line (CHR 0x0A # ''--- Title ---''), Line (title_string soup)])"
proof -
  have w: "\<And>l. stdout_write e l = None" using acc by (simp add: accepting_def)
  show ?thesis
    by (simp add: inspect_meta_body_def g t seq_def call_def print_def w
        extract_meta_output [OF b acc])
qed

lemma try_Returned:
  "body out = (Returned x, out') \<Longrightarrow> try_except_Exception body h out = (Returned x, out')"
  by (simp add: try_except_Exception_def)

lemma inspect_meta_output:
  assumes g: "requests_get e url headers = Inr r"
    and t: "text_of r = Inr html"
    and b: "BeautifulSoup e html = Inr soup"
    and acc: "accepting e"
  shows "inspect_meta e url out =
    (Returned (), out @ [Line (''Status Code: '' @ str_int (status_code r)),
                  Line (CHR 0x0A # ''--- Meta Tags in Head ---'')]
       @ map (\<lambda>m. Repr (attrs_of m)) (emitted_raw soup)
       @ [Line (CHR 0x0A # ''--- Title ---''), Line (title_string soup)])"
  unfolding inspect_meta_def
  by (rule try_Returned [OF inspect_meta_body_output [OF g t b acc]])

lemma inspect_html_output:
  assumes f: "py_open e p = Inr (Inr html)"
    and b: "BeautifulSoup e html = Inr soup"
    and acc: "accepting e"
  shows "inspect_html e p out =
    (Returned (), out @ [Line ''--- Meta Tags ---'']
       @ map record_line (List.map_filter meta_record (find_all soup ''meta''))
       @ [Line (CHR 0x0A # ''--- Title ---''), Line (title_text soup)])"
proof -
  have w: "\<And>l. stdout_write e l = None" using acc by (simp add: accepting_def)
  show ?thesis
    by (simp add: inspect_html_def f seq_def call_def print_def w
        extract_meta_bs4_output [OF b acc])
qed

lemma meta_record_name_first:
  "meta_record t = map_option (\<lambda>k. (k, get t ''content'')) (name_first_key t)"
  by (auto simp: meta_record_def name_first_key_def nonempty_def py_or_def Let_def
      split: option.splits)

lemma subseq_filter_filter:
  "(\<And>x. Q x \<Longrightarrow> P x) \<Longrightarrow> subseq (filter Q xs) (filter P xs)"
proof -
  assume qp: "\<And>x. Q x \<Longrightarrow> P x"
  have "filter Q xs = filter Q (filter P xs)"
    using qp by (auto intro: filter_cong)
  then show ?thesis by (metis subseq_filter_left)
qed

lemma line_None_neq_empty: "k1 @ '': None'' \<noteq> k2 @ '': ''"
proof
  assume "k1 @ '': None'' = k2 @ '': ''"
  then have "last (k1 @ '': None'') = last (k2 @ '': '')" by simp
  then show False by simp
qed

lemma str_int_200: "str_int 200 = ''200''"
  by (simp add: str_int_def digit_def)

lemma meta_record_truthy:
  "(meta_record t \<noteq> None) = (truthy (get t ''name'') \<or> truthy (get t ''property''))"
  by (simp add: meta_record_def py_or_def Let_def)

lemma normalized_of_raw:
  "emitted_normalized soup =
     filter (\<lambda>t. truthy (get t ''name'') \<or> truthy (get t ''property'')) (emitted_raw soup)"
proof -
  have "\<And>t. meta_record t \<noteq> None \<Longrightarrow> named t" by (rule meta_record_named)
  then have "filter (\<lambda>t. meta_record t \<noteq> None) (find_all soup ''meta'') =
      filter (\<lambda>t. meta_record t \<noteq> None) (filter named (find_all soup ''meta''))"
    by (auto intro: filter_cong)
  then show ?thesis
    by (simp only: emitted_normalized_def emitted_raw_def meta_record_truthy)
qed

text \<open>The sample document, evaluated once.\<close>

lemma sample_metas:
  "find_all sample_soup ''meta'' =
      [charset_tag, both_keys_tag, empty_keys_tag, no_content_tag, empty_name_tag]"
  by (simp add: find_all_def descendants_def sample_soup_def charset_tag_def
      both_keys_tag_def empty_keys_tag_def no_content_tag_def empty_name_tag_def)

section \<open>The claims\<close>

subsection \<open>C1: the key of a record in file mode\<close>

text \<open>
  C1 states that the key of the record of a \<^verbatim>\<open>meta\<close> element is its \<^verbatim>\<open>property\<close>
  attribute if present, otherwise its \<^verbatim>\<open>name\<close> attribute. The file script reads
  \<^verbatim>\<open>tag.get('name') or tag.get('property')\<close>: on a tag that carries both, the key is the
  \<^verbatim>\<open>name\<close>, where C1 gives the \<^verbatim>\<open>property\<close>.
\<close>

theorem C1_counterexample:
  "map_option fst (meta_record both_keys_tag) \<noteq> spec_key both_keys_tag
   \<and> map_option fst (meta_record both_keys_tag) = Some ''description''
   \<and> spec_key both_keys_tag = Some ''og:description''
   \<and> for_tag (world [] []) [both_keys_tag] [] = (Returned (), [Line ''description: x''])"
  by (simp add: meta_record_def spec_key_def both_keys_tag_def get_def py_or_def
      world_def seq_def print_def return_def)

text \<open>
  C1, amended: for the \<^verbatim>\<open>meta\<close> elements visited in file mode, in order, the loop prints
  one line per element that has a key, and the key is the value of \<^verbatim>\<open>name\<close> if that
  attribute is present and not empty, otherwise the value of \<^verbatim>\<open>property\<close> if present and
  not empty; an element with neither (or with empty ones only) prints nothing.
\<close>

theorem C1_key_name_first:
  assumes "\<forall>l. stdout_write e l = None"
  shows "for_tag e tags out =
    (Returned (), out @ map (\<lambda>(k, t). Line (k @ '': '' @ py_str (get t ''content'')))
       (List.map_filter (\<lambda>t. map_option (\<lambda>k. (k, t)) (name_first_key t)) tags))"
proof -
  have acc: "accepting e" using assms by (simp add: accepting_def)
  have "map record_line (List.map_filter meta_record tags) =
    map (\<lambda>(k, t). Line (k @ '': '' @ py_str (get t ''content'')))
       (List.map_filter (\<lambda>t. map_option (\<lambda>k. (k, t)) (name_first_key t)) tags)"
    by (induction tags)
      (auto simp: List.map_filter_simps meta_record_name_first record_line_def
        split: option.splits)
  then show ?thesis using for_tag_accepting [OF acc, of tags out] by simp
qed

text \<open>C1, amended, on four tags: no key, both keys, both keys empty, only \<^verbatim>\<open>name\<close>
  empty.\<close>

theorem C1_key_name_first_witness:
  "for_tag (world [] []) [charset_tag, both_keys_tag, empty_keys_tag, empty_name_tag] [] =
     (Returned (), [Line ''description: x'', Line ''og:title: T''])"
  using C1_key_name_first [of "world [] []"
      "[charset_tag, both_keys_tag, empty_keys_tag, empty_name_tag]" "[]"]
  by (simp add: world_def List.map_filter_simps name_first_key_def nonempty_def get_def
      charset_tag_def both_keys_tag_def empty_keys_tag_def empty_name_tag_def)

subsection \<open>C2: a file that cannot be read\<close>

text \<open>
  C2 states that a file-system failure in file mode is caught, reported as one line, and that
  the process exits zero. \<^verbatim>\<open>inspect_html\<close> has no handler: with the file missing, the
  entry point raises, prints nothing, and the interpreter ends with status 1.
\<close>

theorem C2_counterexample:
  "fst (main_inspect_html no_file_env []) \<noteq> Returned ()
   \<and> main_inspect_html no_file_env [] =
     (Raised (Fault True ''[Errno 2] No such file or directory: article_debug_3.html''), [])
   \<and> exit_status (fst (main_inspect_html no_file_env [])) = 1"
  by (simp add: main_inspect_html_def inspect_html_def no_file_env_def world_def seq_def
      call_def)

text \<open>
  C2, amended: in file mode a fault of \<^verbatim>\<open>open\<close> or of \<^verbatim>\<open>read\<close> (file not found,
  permission denied, decode failure) is not caught: \<^verbatim>\<open>inspect_html\<close> raises it to its
  caller with nothing printed, and the process ends with status 1.
\<close>

theorem C2_fault_propagates:
  assumes "py_open e file_path = Inl f \<or> py_open e file_path = Inr (Inl f)"
  shows "inspect_html e file_path out = (Raised f, out)
    \<and> exit_status (fst (inspect_html e file_path out)) = 1"
  using assms by (auto simp: inspect_html_def seq_def call_def)

text \<open>C2, amended, on a missing file and on a file that is not UTF-8.\<close>

theorem C2_fault_propagates_witness:
  "inspect_html no_file_env ''a.html'' [] =
     (Raised (Fault True ''[Errno 2] No such file or directory: a.html''), [])
   \<and> inspect_html undecodable_env ''a.html'' [] =
     (Raised (Fault True ''codec cannot decode byte 0xff''), [])"
  using C2_fault_propagates [of no_file_env "''a.html''"
      "Fault True ''[Errno 2] No such file or directory: a.html''" "[]"]
    C2_fault_propagates [of undecodable_env "''a.html''"
      "Fault True ''codec cannot decode byte 0xff''" "[]"]
  by (simp add: no_file_env_def undecodable_env_def world_def)

subsection \<open>C3: how many records, and in which order\<close>

text \<open>
  C3 states that, of the N \<^verbatim>\<open>meta\<close> elements with a \<^verbatim>\<open>property\<close> or a \<^verbatim>\<open>name\<close>
  attribute, file mode drops the ones with neither attribute. The file script tests the
  values, not the attributes: on a document whose only \<^verbatim>\<open>meta\<close> element is
  \<^verbatim>\<open><meta name="" property="" content="x">\<close>, N is 1, network mode prints one
  dictionary, and file mode prints nothing, although the element has both attributes.
\<close>

theorem C3_counterexample:
  "count_named_metas empty_keys_soup = 1
   \<and> find_all empty_keys_soup ''meta'' = [empty_keys_tag]
   \<and> get empty_keys_tag ''name'' = Some [] \<and> get empty_keys_tag ''property'' = Some []
   \<and> emitted_raw empty_keys_soup = [empty_keys_tag]
   \<and> emitted_normalized empty_keys_soup = []
   \<and> for_tag (world [] empty_keys_soup) (find_all empty_keys_soup ''meta'') [] =
       (Returned (), [])"
  by (simp add: count_named_metas_def emitted_raw_def emitted_normalized_def named_def
      has_key_def meta_record_def py_or_def get_def find_all_def descendants_def
      empty_keys_soup_def empty_keys_tag_def return_def)

text \<open>
  C3, amended: for a document with N \<^verbatim>\<open>meta\<close> elements that have a \<^verbatim>\<open>property\<close> or a
  \<^verbatim>\<open>name\<close> attribute, the network loop prints exactly N attribute dictionaries and the
  file loop at most N lines: of the N, file mode keeps exactly the elements whose \<^verbatim>\<open>name\<close>
  or \<^verbatim>\<open>property\<close> value is not empty and drops the others. An element with neither
  attribute is printed in neither mode. In both modes the records appear in document order:
  the tags printed in network mode are a subsequence of the document's nodes in document
  order, the tags printed in file mode are a subsequence of those, and the lines are printed
  in the order of the tags.
\<close>

theorem C3_counts_and_order:
  assumes "\<forall>l. stdout_write e l = None"
  shows "for_meta e (find_all soup ''meta'') out =
      (Returned (), out @ map (\<lambda>m. Repr (attrs_of m)) (emitted_raw soup))
    \<and> for_tag e (find_all soup ''meta'') out =
      (Returned (), out @ map record_line (List.map_filter meta_record (find_all soup ''meta'')))
    \<and> map Some (List.map_filter meta_record (find_all soup ''meta'')) =
        map meta_record (emitted_normalized soup)
    \<and> length (emitted_raw soup) = count_named_metas soup
    \<and> length (emitted_normalized soup) \<le> count_named_metas soup
    \<and> subseq (emitted_raw soup) (descendants soup)
    \<and> subseq (emitted_normalized soup) (emitted_raw soup)
    \<and> (\<forall>t \<in> set (emitted_raw soup). get t ''property'' \<noteq> None \<or> get t ''name'' \<noteq> None)
    \<and> emitted_normalized soup =
        filter (\<lambda>t. truthy (get t ''name'') \<or> truthy (get t ''property'')) (emitted_raw soup)"
proof -
  have acc: "accepting e" using assms by (simp add: accepting_def)
  have a: "for_meta e (find_all soup ''meta'') out =
      (Returned (), out @ map (\<lambda>m. Repr (attrs_of m)) (emitted_raw soup))"
    by (simp add: for_meta_accepting [OF acc] emitted_raw_def)
  have b: "for_tag e (find_all soup ''meta'') out =
      (Returned (), out @ map record_line (List.map_filter meta_record (find_all soup ''meta'')))"
    by (rule for_tag_accepting [OF acc])
  have c: "map Some (List.map_filter meta_record (find_all soup ''meta'')) =
        map meta_record (emitted_normalized soup)"
    by (simp add: map_filter_as_filter emitted_normalized_def)
  have d: "length (emitted_raw soup) = count_named_metas soup"
    by (rule count_named_metas_raw)
  have g: "subseq (emitted_normalized soup) (emitted_raw soup)"
    unfolding emitted_normalized_def emitted_raw_def
    by (rule subseq_filter_filter) (rule meta_record_named)
  have f: "length (emitted_normalized soup) \<le> count_named_metas soup"
    using list_emb_length [OF g] d by simp
  have h: "subseq (emitted_raw soup) (descendants soup)"
    by (simp add: emitted_raw_def find_all_def)
  have i: "\<forall>t \<in> set (emitted_raw soup). get t ''property'' \<noteq> None \<or> get t ''name'' \<noteq> None"
    by (simp add: emitted_raw_def named_get)
  have k: "emitted_normalized soup =
        filter (\<lambda>t. truthy (get t ''name'') \<or> truthy (get t ''property'')) (emitted_raw soup)"
    by (rule normalized_of_raw)
  show ?thesis using a b c d f h g i k by blast
qed

text \<open>C3, amended, on a document with five \<^verbatim>\<open>meta\<close> elements, four of them with a \<^verbatim>\<open>property\<close> or
  a \<^verbatim>\<open>name\<close>: four dictionaries in network mode, three lines in file mode.\<close>

theorem C3_counts_and_order_witness:
  "count_named_metas sample_soup = 4
   \<and> for_meta (world [] sample_soup) (find_all sample_soup ''meta'') [] =
       (Returned (), [Repr (attrs_of both_keys_tag), Repr (attrs_of empty_keys_tag),
          Repr (attrs_of no_content_tag), Repr (attrs_of empty_name_tag)])
   \<and> for_tag (world [] sample_soup) (find_all sample_soup ''meta'') [] =
       (Returned (), [Line ''description: x'', Line ''og:image: None'', Line ''og:title: T''])
   \<and> emitted_raw sample_soup =
       [both_keys_tag, empty_keys_tag, no_content_tag, empty_name_tag]
   \<and> emitted_normalized sample_soup = [both_keys_tag, no_content_tag, empty_name_tag]"
  using C3_counts_and_order [of "world [] sample_soup" sample_soup "[]"]
  by (simp add: world_def count_named_metas_def emitted_raw_def emitted_normalized_def
      named_def has_key_def meta_record_def py_or_def get_def record_line_def
      List.map_filter_simps find_all_def descendants_def sample_soup_def Let_def
      seq_def print_def return_def
      charset_tag_def both_keys_tag_def empty_keys_tag_def no_content_tag_def
      empty_name_tag_def)

subsection \<open>C4: a fetch that fails\<close>

text \<open>
  C4: when \<^verbatim>\<open>requests.get\<close> fails on the URL (it raises an instance of \<^verbatim>\<open>Exception\<close>, as
  every failure of the library is) the fault does not leave \<^verbatim>\<open>inspect_meta\<close>: the call
  prints exactly one line, \<^verbatim>\<open>Error: \<close> followed by the fault's text, and returns normally.
  Standard output is taken to accept that line.
\<close>

theorem C4_fetch_fault_reported:
  assumes "requests_get e url headers = Inl f"
    and "is_Exception f"
    and "stdout_write e (Line (''Error: '' @ str_of f)) = None"
  shows "inspect_meta e url out = (Returned (), out @ [Line (''Error: '' @ str_of f)])"
  using assms
  by (simp add: inspect_meta_def inspect_meta_body_def try_except_Exception_def seq_def
      call_def print_def)

text \<open>C4 on a host that cannot be reached.\<close>

theorem C4_fetch_fault_reported_witness:
  "inspect_meta unreachable_env ''https://invalid.invalid/'' [] =
     (Returned (), [Line ''Error: Max retries exceeded with url: https://invalid.invalid/''])"
  using C4_fetch_fault_reported [of unreachable_env "''https://invalid.invalid/''"
      "Fault True ''Max retries exceeded with url: https://invalid.invalid/''" "[]"]
  by (simp add: unreachable_env_def world_def)

subsection \<open>C5: an omitted \<open>content\<close> is not an empty one\<close>

text \<open>
  C5: a \<^verbatim>\<open>meta\<close> element printed in file mode whose \<^verbatim>\<open>content\<close> attribute is omitted has
  the value \<^verbatim>\<open>None\<close>, not the empty string: its record differs from the record of any
  printed element with \<^verbatim>\<open>content=""\<close>, and so do the printed lines (the one ends in
  \<^verbatim>\<open>None\<close>, the other in a colon and a space).
\<close>

theorem C5_absent_content_distinct:
  assumes c1: "get t1 ''content'' = None" and c2: "get t2 ''content'' = Some []"
    and r1: "meta_record t1 = Some r1" and r2: "meta_record t2 = Some r2"
    and w: "\<forall>l. stdout_write e l = None"
  shows "snd r1 = None \<and> snd r2 = Some [] \<and> r1 \<noteq> r2
    \<and> for_tag e [t1] out = (Returned (), out @ [Line (fst r1 @ '': None'')])
    \<and> for_tag e [t2] out = (Returned (), out @ [Line (fst r2 @ '': '')])
    \<and> for_tag e [t1] out \<noteq> for_tag e [t2] out"
proof -
  have acc: "accepting e" using w by (simp add: accepting_def)
  have s1: "snd r1 = None" using c1 r1 by (auto simp: meta_record_def Let_def split: if_splits)
  have s2: "snd r2 = Some []" using c2 r2 by (auto simp: meta_record_def Let_def split: if_splits)
  have l1: "for_tag e [t1] out = (Returned (), out @ [Line (fst r1 @ '': None'')])"
    using r1 s1 for_tag_accepting [OF acc, of "[t1]" out]
    by (simp add: List.map_filter_simps record_line_def del: for_tag.simps)
  have l2: "for_tag e [t2] out = (Returned (), out @ [Line (fst r2 @ '': '')])"
    using r2 s2 for_tag_accepting [OF acc, of "[t2]" out]
    by (simp add: List.map_filter_simps record_line_def del: for_tag.simps)
  have d: "for_tag e [t1] out \<noteq> for_tag e [t2] out"
    unfolding l1 l2 using line_None_neq_empty [of "fst r1" "fst r2"] by simp
  show ?thesis using s1 s2 l1 l2 d by auto
qed

text \<open>C5 on \<^verbatim>\<open><meta property="og:image">\<close> and \<^verbatim>\<open><meta property="og:image" content="">\<close>.\<close>

theorem C5_absent_content_distinct_witness:
  "meta_record no_content_tag = Some (''og:image'', None)
   \<and> meta_record empty_content_tag = Some (''og:image'', Some [])
   \<and> for_tag (world [] []) [no_content_tag] [] = (Returned (), [Line ''og:image: None''])
   \<and> for_tag (world [] []) [empty_content_tag] [] = (Returned (), [Line ''og:image: ''])"
  using C5_absent_content_distinct [of no_content_tag empty_content_tag
      "(''og:image'', None)" "(''og:image'', Some [])" "world [] []" "[]"]
  by (simp add: meta_record_def py_or_def get_def no_content_tag_def empty_content_tag_def
      world_def)

subsection \<open>C6: the title of a document that has one\<close>

text \<open>
  C6 states that both modes return the text content of the first \<^verbatim>\<open>title\<close> element. The
  network script prints \<^verbatim>\<open>soup.title.string\<close>, which is \<^verbatim>\<open>None\<close> for a \<^verbatim>\<open>title\<close>
  without exactly one child: on \<^verbatim>\<open><title></title>\<close> it prints \<^verbatim>\<open>None\<close>, where the text
  content is empty (and is what the file script prints).
\<close>

theorem C6_counterexample:
  "title_string empty_title_soup \<noteq> get_text (Tag ''title'' [] [])
   \<and> first_title empty_title_soup = Some (Tag ''title'' [] [])
   \<and> get_text (Tag ''title'' [] []) = []
   \<and> title_string empty_title_soup = ''None''
   \<and> title_text empty_title_soup = []"
  by (simp add: first_title_def title_string_def title_text_def find_tag_def find_all_def
      descendants_def empty_title_soup_def)

text \<open>
  C6, amended: for a document with at least one \<^verbatim>\<open>title\<close> element, file mode returns the
  text content of the first one in document order, and network mode returns that element's
  \<^verbatim>\<open>.string\<close>: its text when its only child is a text node, and \<^verbatim>\<open>None\<close> when it has no
  child or more than one. On \<^verbatim>\<open><html><head><title>Hello</title></head></html>\<close> both
  return \<^verbatim>\<open>Hello\<close>.
\<close>

theorem C6_first_title:
  assumes "first_title soup = Some t"
  shows "title_text soup = get_text t
    \<and> title_string soup = py_str (string_of t)
    \<and> (\<forall>s. contents t = [NavigableString s] \<longrightarrow> title_string soup = s \<and> title_text soup = s)
    \<and> (length (contents t) \<noteq> 1 \<longrightarrow> title_string soup = ''None'')
    \<and> first_title hello_soup = Some (Tag ''title'' [] [NavigableString ''Hello''])
    \<and> title_string hello_soup = ''Hello'' \<and> title_text hello_soup = ''Hello''"
proof -
  have ft: "find_tag soup ''title'' = Some t"
    using assms by (simp add: first_title_def find_tag_first)
  have "is_tag ''title'' t"
    using assms by (auto simp: first_title_def find_Some_iff)
  then obtain a cs where t: "t = Tag ''title'' a cs" using is_tag_Tag by blast
  have p1: "title_text soup = get_text t" using ft by (simp add: title_text_def)
  have p2: "title_string soup = py_str (string_of t)" using ft by (simp add: title_string_def)
  have p3: "\<forall>s. contents t = [NavigableString s] \<longrightarrow> title_string soup = s \<and> title_text soup = s"
    using t p1 p2 by simp
  have p4: "length (contents t) \<noteq> 1 \<longrightarrow> title_string soup = ''None''"
    using t p2 by (simp add: string_of_not_single del: string_of.simps)
  have p5: "first_title hello_soup = Some (Tag ''title'' [] [NavigableString ''Hello''])
    \<and> title_string hello_soup = ''Hello'' \<and> title_text hello_soup = ''Hello''"
    by (simp add: first_title_def title_string_def title_text_def find_tag_def find_all_def
      descendants_def hello_soup_def)
  show ?thesis using p1 p2 p3 p4 p5 by blast
qed

text \<open>C6, amended, on a document whose title is one text node and on one whose title is
  empty.\<close>

theorem C6_first_title_witness:
  "title_text sample_soup = ''Example Page'' \<and> title_string sample_soup = ''Example Page''
   \<and> title_string empty_title_soup = ''None'' \<and> title_text empty_title_soup = []"
  using C6_first_title [of sample_soup "Tag ''title'' [] [NavigableString ''Example Page'']"]
    C6_first_title [of empty_title_soup "Tag ''title'' [] []"]
  by (simp add: first_title_def descendants_def sample_soup_def empty_title_soup_def
      charset_tag_def both_keys_tag_def empty_keys_tag_def no_content_tag_def
      empty_name_tag_def)

subsection \<open>C7: a document without a title\<close>

text \<open>
  C7: for a document with no \<^verbatim>\<open>title\<close> element (with or without a \<^verbatim>\<open>head\<close>), the title
  step does not raise and gives the absent indicator: each script returns normally and its
  last line is \<^verbatim>\<open>No title tag\<close> (network mode) or \<^verbatim>\<open>No title found\<close> (file mode).
\<close>

theorem C7_no_title:
  assumes nt: "\<forall>n \<in> set (descendants soup). \<not> is_tag ''title'' n"
    and g: "requests_get e url headers = Inr r" and t: "text_of r = Inr html"
    and f: "py_open e file_path = Inr (Inr html)"
    and b: "BeautifulSoup e html = Inr soup"
    and w: "\<forall>l. stdout_write e l = None"
  shows "title_string soup = ''No title tag'' \<and> title_text soup = ''No title found''
    \<and> inspect_meta e url out =
      (Returned (), out @ [Line (''Status Code: '' @ str_int (status_code r)),
                  Line (CHR 0x0A # ''--- Meta Tags in Head ---'')]
       @ map (\<lambda>m. Repr (attrs_of m)) (emitted_raw soup)
       @ [Line (CHR 0x0A # ''--- Title ---''), Line ''No title tag''])
    \<and> inspect_html e file_path out =
      (Returned (), out @ [Line ''--- Meta Tags ---'']
       @ map record_line (List.map_filter meta_record (find_all soup ''meta''))
       @ [Line (CHR 0x0A # ''--- Title ---''), Line ''No title found''])"
proof -
  have acc: "accepting e" using w by (simp add: accepting_def)
  have "find_all soup ''title'' = []"
    using nt by (simp add: find_all_def filter_empty_conv)
  then have ft: "find_tag soup ''title'' = None" by (simp add: find_tag_def)
  have s: "title_string soup = ''No title tag''" using ft by (simp add: title_string_def)
  have x: "title_text soup = ''No title found''" using ft by (simp add: title_text_def)
  show ?thesis
    using s x inspect_meta_output [OF g t b acc, of out] inspect_html_output [OF f b acc, of out]
    by simp
qed

text \<open>C7 on \<^verbatim>\<open><html><body>no title here</body></html>\<close>.\<close>

theorem C7_no_title_witness:
  "inspect_meta (world no_title_html no_title_soup) ''u'' [] =
     (Returned (), [Line ''Status Code: 200'', Line (CHR 0x0A # ''--- Meta Tags in Head ---''),
        Line (CHR 0x0A # ''--- Title ---''), Line ''No title tag''])
   \<and> inspect_html (world no_title_html no_title_soup) ''p'' [] =
     (Returned (), [Line ''--- Meta Tags ---'', Line (CHR 0x0A # ''--- Title ---''),
        Line ''No title found''])"
  using C7_no_title [of no_title_soup "world no_title_html no_title_soup" "''u''"
      "\<lparr> status_code = 200, text_of = Inr no_title_html \<rparr>" no_title_html "''p''" "[]"]
  by (simp add: world_def descendants_def no_title_soup_def emitted_raw_def find_all_def
      List.map_filter_simps str_int_200)

subsection \<open>C9: empty attribute values\<close>

text \<open>
  C9: in file mode a \<^verbatim>\<open>meta\<close> element whose \<^verbatim>\<open>name\<close> and \<^verbatim>\<open>property\<close> are both present
  and both empty prints nothing (the values are tested for truth, not the attributes for
  presence), and an element with an empty \<^verbatim>\<open>name\<close> and a non-empty \<^verbatim>\<open>property\<close> takes its
  key from \<^verbatim>\<open>property\<close>.
\<close>

theorem C9_truthiness:
  "(get tag ''name'' = Some [] \<and> get tag ''property'' = Some []
      \<longrightarrow> for_tag e (tag # rest) = for_tag e rest)
   \<and> (get tag ''name'' = Some [] \<and> get tag ''property'' = Some p \<and> p \<noteq> []
      \<longrightarrow> for_tag e (tag # rest) =
          seq (print e (Line (p @ '': '' @ py_str (get tag ''content''))))
            (\<lambda>_. for_tag e rest))"
  by (simp add: py_or_def Let_def)

text \<open>C9 on \<^verbatim>\<open><meta name="" property="" content="x">\<close> and on
  \<^verbatim>\<open><meta name="" property="og:title" content="T">\<close>.\<close>

theorem C9_truthiness_witness:
  "for_tag (world [] []) [empty_keys_tag] [] = (Returned (), [])
   \<and> for_tag (world [] []) [empty_name_tag] [] = (Returned (), [Line ''og:title: T''])"
  using C9_truthiness [where tag = empty_keys_tag and e = "world [] []" and rest = "[]"]
    C9_truthiness [where tag = empty_name_tag and e = "world [] []" and rest = "[]"
      and p = "''og:title''"]
  by (simp add: empty_keys_tag_def empty_name_tag_def get_def world_def seq_def print_def
      return_def)

subsection \<open>C10: faults after the fetch\<close>

text \<open>
  C10 states that no fault of any kind leaves \<^verbatim>\<open>inspect_meta\<close>. The handler is
  \<^verbatim>\<open>except Exception\<close>: a fault that is not an instance of \<^verbatim>\<open>Exception\<close>, such as the
  \<^verbatim>\<open>KeyboardInterrupt\<close> of a user who stops the script while it parses, is not caught and
  leaves the function, after the status line was printed.
\<close>

theorem C10_counterexample:
  "fst (inspect_meta interrupted_env ''u'' []) \<noteq> Returned ()
   \<and> inspect_meta interrupted_env ''u'' [] =
       (Raised (Fault False []), [Line ''Status Code: 200''])"
  by (simp add: inspect_meta_def inspect_meta_body_def extract_meta_def
      try_except_Exception_def interrupted_env_def world_def seq_def call_def print_def
      str_int_200)

text \<open>
  C10, amended: a fault raised anywhere in the \<^verbatim>\<open>try\<close> body (the fetch, the decoding of
  the response, the parsing, a \<^verbatim>\<open>print\<close>) that is an instance of \<^verbatim>\<open>Exception\<close> is caught
  by the one handler, which prints the single line \<^verbatim>\<open>Error: \<close> and the fault's text after
  whatever was printed before the fault, and then the call returns normally, provided
  standard output accepts that line. What was printed before the fault stays printed. A
  fault that is not an instance of \<^verbatim>\<open>Exception\<close> leaves \<^verbatim>\<open>inspect_meta\<close>.
\<close>

theorem C10_Exception_caught:
  assumes "inspect_meta_body e url out = (Raised f, out1)"
  shows "prefix out out1
    \<and> (is_Exception f \<and> stdout_write e (Line (''Error: '' @ str_of f)) = None
        \<longrightarrow> inspect_meta e url out = (Returned (), out1 @ [Line (''Error: '' @ str_of f)]))
    \<and> (\<not> is_Exception f \<longrightarrow> inspect_meta e url out = (Raised f, out1))"
proof -
  have "inspect_meta_body e url out =
      (fst (inspect_meta_body e url []), out @ snd (inspect_meta_body e url []))"
    by (rule appendsD [OF appends_inspect_meta_body])
  then have "prefix out out1" using assms by (simp add: prefix_def)
  then show ?thesis
    using assms by (simp add: inspect_meta_def try_except_Exception_def print_def)
qed

text \<open>C10, amended, on a response that cannot be decoded, a markup the parser rejects, a
  line standard output cannot encode, and an interrupt from the keyboard.\<close>

theorem C10_Exception_caught_witness:
  "inspect_meta undecoded_env ''u'' [] =
     (Returned (), [Line ''Status Code: 200'', Line ''Error: unknown encoding''])
   \<and> inspect_meta unparsed_env ''u'' [] =
     (Returned (), [Line ''Status Code: 200'', Line ''Error: markup rejected''])
   \<and> inspect_meta narrow_stdout_env ''u'' [] =
     (Returned (), [Line ''Status Code: 200'', Line (CHR 0x0A # ''--- Meta Tags in Head ---''),
        Repr (attrs_of both_keys_tag), Repr (attrs_of empty_keys_tag),
        Line ''Error: codec cannot encode character''])
   \<and> inspect_meta interrupted_env ''u'' [] =
     (Raised (Fault False []), [Line ''Status Code: 200''])"
proof -
  have a: "inspect_meta_body undecoded_env ''u'' [] =
      (Raised (Fault True ''unknown encoding''), [Line ''Status Code: 200''])"
    by (simp add: inspect_meta_body_def undecoded_env_def world_def seq_def call_def
        print_def str_int_200)
  have b: "inspect_meta_body unparsed_env ''u'' [] =
      (Raised (Fault True ''markup rejected''), [Line ''Status Code: 200''])"
    by (simp add: inspect_meta_body_def extract_meta_def unparsed_env_def world_def seq_def
        call_def print_def str_int_200)
  have g: "requests_get narrow_stdout_env ''u'' headers =
      Inr \<lparr> status_code = 200, text_of = Inr [] \<rparr>"
    by (simp add: narrow_stdout_env_def world_def)
  have p: "BeautifulSoup narrow_stdout_env [] = Inr sample_soup"
    by (simp add: narrow_stdout_env_def world_def)
  have w: "\<And>l. stdout_write narrow_stdout_env l =
      (if l = Repr (attrs_of no_content_tag)
       then Some (Fault True ''codec cannot encode character'') else None)"
    by (simp add: narrow_stdout_env_def world_def)
  have loop: "for_meta narrow_stdout_env (find_all sample_soup ''meta'')
        [Line ''Status Code: 200'', Line (CHR 0x0A # ''--- Meta Tags in Head ---'')] =
      (Raised (Fault True ''codec cannot encode character''),
       [Line ''Status Code: 200'', Line (CHR 0x0A # ''--- Meta Tags in Head ---''),
        Repr (attrs_of both_keys_tag), Repr (attrs_of empty_keys_tag)])"
    by (simp add: sample_metas for_meta_Cons seq_def print_def w named_def has_key_def
        charset_tag_def both_keys_tag_def empty_keys_tag_def no_content_tag_def
        del: for_meta.simps)
  have c: "inspect_meta_body narrow_stdout_env ''u'' [] =
      (Raised (Fault True ''codec cannot encode character''),
       [Line ''Status Code: 200'', Line (CHR 0x0A # ''--- Meta Tags in Head ---''),
        Repr (attrs_of both_keys_tag), Repr (attrs_of empty_keys_tag)])"
    using loop
    by (simp add: inspect_meta_body_def extract_meta_def g p seq_def call_def print_def w
        str_int_200)
  have d: "inspect_meta_body interrupted_env ''u'' [] =
      (Raised (Fault False []), [Line ''Status Code: 200''])"
    by (simp add: inspect_meta_body_def extract_meta_def interrupted_env_def world_def seq_def
        call_def print_def str_int_200)
  have wa: "stdout_write undecoded_env (Line ''Error: unknown encoding'') = None"
    by (simp add: undecoded_env_def world_def)
  have wb: "stdout_write unparsed_env (Line ''Error: markup rejected'') = None"
    by (simp add: unparsed_env_def world_def)
  show ?thesis
    using C10_Exception_caught [OF a] C10_Exception_caught [OF b]
      C10_Exception_caught [OF c] C10_Exception_caught [OF d]
    by (simp add: wa wb w)
qed

end
